theory Spec2Isabelle
  imports Complex_Main "HOL-Library.Word" "HOL-Library.AList"
begin

section \<open>Python numbers used by \<open>infer\<close>\<close>

text \<open>
  \<open>scripts/gradio_demo.py\<close> computes the target height of the resized image with Python
  floats: \<open>scale = new_width / image.size[0]\<close> is a true division of two ints and
  \<open>int(image.size[1] * scale)\<close> multiplies an int by that float and truncates.  Python floats
  are IEEE 754 binary64 values and both operations round to nearest, ties to even.  A
  non-negative float is kept here as a pair \<open>(m, e)\<close> of a mantissa and a binary exponent,
  standing for \<open>m * 2 ^ e\<close>; rounding keeps 53 significant bits.  The exponent is not
  bounded: for the sizes of a PIL image (C ints, below \<open>2 ^ 31\<close>) every value that occurs
  lies between \<open>2 ^ - 22\<close> and \<open>2 ^ 40\<close>, far inside the normal range of binary64.
\<close>

type_synonym pyfloat = "nat \<times> int"

fun bitlen :: "nat \<Rightarrow> nat" where
  "bitlen n = (if n = 0 then 0 else Suc (bitlen (n div 2)))"

declare bitlen.simps [simp del]

text \<open>The fraction \<open>(a / b) / 2 ^ e\<close> as a numerator and a denominator.\<close>

definition scaled :: "nat \<Rightarrow> nat \<Rightarrow> int \<Rightarrow> nat \<times> nat" where
  "scaled a b e = (if 0 \<le> e then (a, b * 2 ^ nat e) else (a * 2 ^ nat (- e), b))"

text \<open>\<open>binexp a b\<close> is the exponent \<open>k\<close> with \<open>2 ^ k \<le> a / b < 2 ^ (k + 1)\<close>, for positive
  \<open>a\<close> and \<open>b\<close>.\<close>

definition binexp :: "nat \<Rightarrow> nat \<Rightarrow> int" where
  "binexp a b =
     (let k = int (bitlen a) - int (bitlen b)
      in if snd (scaled a b k) \<le> fst (scaled a b k) then k else k - 1)"

text \<open>Round \<open>n / d\<close> to the nearest integer, a tie to the even one.\<close>

definition rne :: "nat \<Rightarrow> nat \<Rightarrow> nat" where
  "rne n d =
     (let q = n div d; r = n mod d
      in if 2 * r < d then q
         else if d < 2 * r then q + 1
         else if even q then q else q + 1)"

text \<open>The float nearest to \<open>a / b\<close>: the mantissa has 53 bits.\<close>

definition fround :: "nat \<Rightarrow> nat \<Rightarrow> pyfloat" where
  "fround a b =
     (if a = 0 then (0, 0)
      else let e = binexp a b - 52
           in (rne (fst (scaled a b e)) (snd (scaled a b e)), e))"

datatype error =
    AttributeError
  | ZeroDivisionError
  | ValueError
  | IndexError
  | FileNotFoundError
  | FileExistsError
  | NotADirectoryError
  | IsADirectoryError
  | ExternalFault string

text \<open>\<open>x / y\<close> on two ints (both non-negative here).\<close>

definition truediv :: "nat \<Rightarrow> nat \<Rightarrow> error + pyfloat" where
  "truediv x y = (if y = 0 then Inl ZeroDivisionError else Inr (fround x y))"

text \<open>\<open>float(n)\<close>, the conversion Python applies to the int operand of a mixed product.\<close>

definition float_of_int :: "nat \<Rightarrow> pyfloat" where
  "float_of_int n = fround n 1"

text \<open>The product of two floats, rounded once.\<close>

definition fmul :: "pyfloat \<Rightarrow> pyfloat \<Rightarrow> pyfloat" where
  "fmul x y =
     (let m = fst x * fst y; e = snd x + snd y
      in if 0 \<le> e then fround (m * 2 ^ nat e) 1 else fround m (2 ^ nat (- e)))"

text \<open>\<open>n * x\<close> for an int \<open>n\<close> and a float \<open>x\<close>.\<close>

definition mul_int_float :: "nat \<Rightarrow> pyfloat \<Rightarrow> pyfloat" where
  "mul_int_float n x = fmul (float_of_int n) x"

text \<open>\<open>int(x)\<close>: truncation.\<close>

definition py_int :: "pyfloat \<Rightarrow> nat" where
  "py_int x = (if 0 \<le> snd x then fst x * 2 ^ nat (snd x) else fst x div 2 ^ nat (- snd x))"

text \<open>The real number a float stands for (used in the proofs only).\<close>

definition fval :: "pyfloat \<Rightarrow> real" where
  "fval x = real (fst x) * 2 powr real_of_int (snd x)"


section \<open>PIL images and numpy arrays\<close>

text \<open>
  A PIL image has a size \<open>(width, height)\<close>, a mode and pixels; a pixel is the list of its
  bands (three bytes in mode RGB, one in mode L).  Resampling and mode conversion are done
  by the library: what they compute for the pixels is a parameter of the model
  (\<open>resample\<close>, \<open>to_rgb\<close> below), the sizes, the modes and the failures are written out.
\<close>

type_synonym pixel = "8 word list"

record image =
  im_size :: "nat \<times> nat"
  im_mode :: string
  getpixel :: "nat \<Rightarrow> nat \<Rightarrow> pixel"

text \<open>The keyword arguments of the one call of the pipeline, and the external collaborators
  of \<open>infer\<close>: the diffusion pipeline (of an opaque type \<open>'p\<close>), the pixel kernels of
  PIL and the random source.  \<open>generator_kw\<close> is the seed given to \<open>manual_seed\<close>.\<close>

record 'g request =
  prompt_kw :: string
  image_kw :: image
  mask_image_kw :: image
  height_kw :: nat
  width_kw :: nat
  guidance_scale_kw :: 'g
  num_inference_steps_kw :: int
  generator_kw :: int

record ('p, 'g) ext =
  from_pretrained :: "string \<Rightarrow> error + 'p"
  load_lora_weights :: "'p \<Rightarrow> string \<Rightarrow> error + 'p"
  enable_model_cpu_offload :: "'p \<Rightarrow> error + 'p"
  to_cuda :: "'p \<Rightarrow> error + 'p"
  call :: "'p \<Rightarrow> 'g request \<Rightarrow> error + image list"
  resample :: "image \<Rightarrow> nat \<times> nat \<Rightarrow> nat \<Rightarrow> nat \<Rightarrow> pixel"
  to_rgb :: "image \<Rightarrow> nat \<Rightarrow> nat \<Rightarrow> pixel"
  randint :: "int \<Rightarrow> int \<Rightarrow> int"

text \<open>\<open>Image.resize(size)\<close>: an image that has the size already is returned as a copy; a
  target with a side below 1 is refused with \<open>ValueError\<close> (``height and width must be
  > 0''); otherwise the result has exactly the requested size.\<close>

definition resize :: "('p, 'g) ext \<Rightarrow> image \<Rightarrow> nat \<times> nat \<Rightarrow> error + image" where
  "resize E im sz =
     (if im_size im = sz then Inr im
      else if fst sz < 1 \<or> snd sz < 1 then Inl ValueError
      else Inr (im\<lparr>im_size := sz, getpixel := resample E im sz\<rparr>))"

text \<open>\<open>Image.convert("RGB")\<close>.\<close>

definition convert_RGB :: "('p, 'g) ext \<Rightarrow> image \<Rightarrow> image" where
  "convert_RGB E im =
     (if im_mode im = ''RGB'' then im
      else im\<lparr>im_mode := ''RGB'', getpixel := to_rgb E im\<rparr>)"

text \<open>\<open>Image.new("RGB", size)\<close>: every pixel black.\<close>

definition new_RGB :: "nat \<times> nat \<Rightarrow> image" where
  "new_RGB sz = \<lparr>im_size = sz, im_mode = ''RGB'', getpixel = (\<lambda>x y. [0, 0, 0])\<rparr>"

text \<open>\<open>base.paste(im, (x0, y0))\<close> for two images of the same mode.\<close>

definition paste :: "image \<Rightarrow> image \<Rightarrow> nat \<times> nat \<Rightarrow> image" where
  "paste base im pos =
     base\<lparr>getpixel := (\<lambda>x y.
       if fst pos \<le> x \<and> x < fst pos + fst (im_size im) \<and>
          snd pos \<le> y \<and> y < snd pos + snd (im_size im)
       then getpixel im (x - fst pos) (y - snd pos)
       else getpixel base x y)\<rparr>"

text \<open>\<open>Image.crop((left, upper, right, lower))\<close> with a box inside the image.\<close>

definition crop :: "image \<Rightarrow> nat \<times> nat \<times> nat \<times> nat \<Rightarrow> image" where
  "crop im box =
     (case box of (left, upper, right, lower) \<Rightarrow>
        im\<lparr>im_size := (right - left, lower - upper),
           getpixel := (\<lambda>x y. getpixel im (x + left) (y + upper))\<rparr>)"

text \<open>A two-dimensional \<open>uint8\<close> array: its shape \<open>(rows, columns)\<close> and its entries.\<close>

record ndarray =
  shape :: "nat \<times> nat"
  item :: "nat \<Rightarrow> nat \<Rightarrow> 8 word"

definition zeros :: "nat \<times> nat \<Rightarrow> ndarray" where
  "zeros sh = \<lparr>shape = sh, item = (\<lambda>r c. 0)\<rparr>"

text \<open>\<open>a[:, start:] = v\<close>.\<close>

definition set_columns_from :: "ndarray \<Rightarrow> nat \<Rightarrow> 8 word \<Rightarrow> ndarray" where
  "set_columns_from a start v =
     a\<lparr>item := (\<lambda>r c. if start \<le> c \<and> c < snd (shape a) then v else item a r c)\<rparr>"

text \<open>\<open>Image.fromarray\<close> on a two-dimensional \<open>uint8\<close> array: a mode L image whose width
  is the number of columns.\<close>

definition fromarray :: "ndarray \<Rightarrow> image" where
  "fromarray a =
     \<lparr>im_size = (snd (shape a), fst (shape a)), im_mode = ''L'',
      getpixel = (\<lambda>x y. [item a y x])\<rparr>"


section \<open>The file system and the console\<close>

text \<open>
  What \<open>infer\<close> touches of the outside world: the directories it lists and writes to, and
  the lines it prints.  A directory is the list of its entries, in the order
  \<open>os.listdir\<close> reports them; a path is identified with its string.
\<close>

datatype content = Png image | OtherFile | SubDir

datatype node = Directory "(string \<times> content) list" | RegularFile

record world =
  fs :: "string \<rightharpoonup> node"
  stdout :: "string list"

text \<open>\<open>os.makedirs(path, exist_ok=True)\<close>.\<close>

definition makedirs :: "string \<Rightarrow> world \<Rightarrow> error + world" where
  "makedirs path s =
     (if path = [] then Inl FileNotFoundError
      else case fs s path of
             None \<Rightarrow> Inr (s\<lparr>fs := (fs s)(path \<mapsto> Directory [])\<rparr>)
           | Some (Directory es) \<Rightarrow> Inr s
           | Some RegularFile \<Rightarrow> Inl FileExistsError)"

text \<open>\<open>os.listdir(path)\<close>.\<close>

definition listdir :: "string \<Rightarrow> world \<Rightarrow> error + string list" where
  "listdir path s =
     (case fs s path of
        None \<Rightarrow> Inl FileNotFoundError
      | Some (Directory es) \<Rightarrow> Inr (map fst es)
      | Some RegularFile \<Rightarrow> Inl NotADirectoryError)"

text \<open>\<open>im.save(f"{dir}/{name}")\<close>: the entry is created, or an existing file of that name is
  overwritten.\<close>

definition save :: "image \<Rightarrow> string \<Rightarrow> string \<Rightarrow> world \<Rightarrow> error + world" where
  "save im dir name s =
     (case fs s dir of
        None \<Rightarrow> Inl FileNotFoundError
      | Some RegularFile \<Rightarrow> Inl NotADirectoryError
      | Some (Directory es) \<Rightarrow>
          (case map_of es name of
             Some SubDir \<Rightarrow> Inl IsADirectoryError
           | _ \<Rightarrow> Inr (s\<lparr>fs := (fs s)(dir \<mapsto> Directory (AList.update name (Png im) es))\<rparr>)))"

text \<open>\<open>print(line)\<close>.\<close>

definition print :: "string \<Rightarrow> world \<Rightarrow> world" where
  "print line s = s\<lparr>stdout := stdout s @ [line]\<rparr>"

text \<open>The decimal digits of an int, as an f-string writes it.\<close>

fun str_nat :: "nat \<Rightarrow> string" where
  "str_nat n =
     (if n < 10 then [char_of (48 + n)]
      else str_nat (n div 10) @ [char_of (48 + n mod 10)])"

declare str_nat.simps [simp del]

section \<open>\<open>infer\<close>\<close>

definition MAX_SEED :: int where
  \<comment> \<open>\<open>np.iinfo(np.int32).max\<close>\<close>
  "MAX_SEED = 2 ^ 31 - 1"

text \<open>Lines 44 to 50: the pipeline is built on every call.\<close>

definition load_pipe :: "('p, 'g) ext \<Rightarrow> string \<Rightarrow> string \<Rightarrow> bool \<Rightarrow> error + 'p" where
  "load_pipe E flux_path lora_path enable_offload =
     (case from_pretrained E flux_path of
        Inl e \<Rightarrow> Inl e
      | Inr pipe \<Rightarrow>
          (case load_lora_weights E pipe lora_path of
             Inl e \<Rightarrow> Inl e
           | Inr pipe \<Rightarrow>
               if enable_offload then enable_model_cpu_offload E pipe else to_cuda E pipe))"

definition warning_width :: string where
  "warning_width =
     [CHR 0x1B] @ ''[93m[WARNING] We can only deal with the case where the image'' @
     [CHR 0x27] @ ''s width is 512.'' @ [CHR 0x1B] @ ''[0m''"

definition warning_resizing :: "nat \<Rightarrow> nat \<Rightarrow> string" where
  "warning_resizing new_width new_height =
     [CHR 0x1B] @ ''[93m[WARNING] Resizing the image to '' @ str_nat new_width @ '' x '' @
     str_nat new_height @ [CHR 0x1B] @ ''[0m''"

text \<open>Lines 56 to 59: the height the image is resized to, from its size.\<close>

definition new_height :: "nat \<times> nat \<Rightarrow> error + nat" where
  "new_height sz =
     (case truediv 512 (fst sz) of
        Inl e \<Rightarrow> Inl e
      | Inr scale \<Rightarrow> Inr ((py_int (mul_int_float (snd sz) scale) div 8) * 8))"

text \<open>Lines 52 to 63 (\<open>normalize\<close> in the specification).  With no image uploaded the
  argument is \<open>None\<close> and \<open>image.size\<close> raises.\<close>

definition normalize_image ::
  "('p, 'g) ext \<Rightarrow> image option \<Rightarrow> world \<Rightarrow> (error + image) \<times> world" where
  "normalize_image E edit_images s =
     (case edit_images of
        None \<Rightarrow> (Inl AttributeError, s)
      | Some im \<Rightarrow>
          if fst (im_size im) \<noteq> 512 then
            (let s1 = print warning_width s
             in case new_height (im_size im) of
                  Inl e \<Rightarrow> (Inl e, s1)
                | Inr nh \<Rightarrow>
                    (case resize E im (512, nh) of
                       Inl e \<Rightarrow> (Inl e, s1)
                     | Inr im' \<Rightarrow>
                         (Inr (convert_RGB E im'), print (warning_resizing 512 nh) s1)))
          else (Inr (convert_RGB E im), s))"

text \<open>Lines 64 to 70 (\<open>compose\<close>): the composite, the mask, and the \<open>width\<close> and \<open>height\<close>
  read from the image.\<close>

definition compose ::
  "('p, 'g) ext \<Rightarrow> image \<Rightarrow> error + image \<times> image \<times> nat \<times> nat" where
  "compose E im =
     (case im_size im of (width, height) \<Rightarrow>
        (case truediv (512 * height) width of
           Inl e \<Rightarrow> Inl e
         | Inr q \<Rightarrow>
             (case resize E im (512, py_int q) of
                Inl e \<Rightarrow> Inl e
              | Inr im' \<Rightarrow>
                  (let combined_image = paste (new_RGB (width * 2, height)) im' (0, 0);
                       mask_array = zeros (height, width * 2);
                       mask_array = set_columns_from mask_array width 255;
                       mask_image = fromarray mask_array
                   in Inr (combined_image, mask_image, width, height)))))"

text \<open>Line 71 (\<open>buildInstruction\<close>).\<close>

definition instruction :: "string \<Rightarrow> string" where
  "instruction prompt =
     ''A diptych with two side-by-side images of the same scene. On the right, the scene is exactly the same as on the left but '' @ prompt"

text \<open>Lines 73 and 74 (\<open>resolveSeed\<close>).\<close>

definition resolve_seed :: "('p, 'g) ext \<Rightarrow> int \<Rightarrow> bool \<Rightarrow> int" where
  "resolve_seed E seed randomize_seed = (if randomize_seed then randint E 0 MAX_SEED else seed)"

text \<open>Lines 52 to 84: the keyword arguments of the call of the pipeline.  The parameters
  \<open>width\<close> and \<open>height\<close> of \<open>infer\<close> are in scope and are assigned to at line 64.\<close>

definition prepare ::
  "('p, 'g) ext \<Rightarrow> image option \<Rightarrow> string \<Rightarrow> int \<Rightarrow> bool \<Rightarrow> int \<Rightarrow> int \<Rightarrow> 'g \<Rightarrow> int \<Rightarrow>
   world \<Rightarrow> (error + 'g request) \<times> world" where
  "prepare E edit_images prompt seed randomize_seed width height guidance_scale
     num_inference_steps s =
     (case normalize_image E edit_images s of
        (Inl e, s1) \<Rightarrow> (Inl e, s1)
      | (Inr im, s1) \<Rightarrow>
          (case compose E im of
             Inl e \<Rightarrow> (Inl e, s1)
           | Inr (combined_image, mask_image, width, height) \<Rightarrow>
               (Inr \<lparr>prompt_kw = instruction prompt,
                     image_kw = combined_image,
                     mask_image_kw = mask_image,
                     height_kw = height,
                     width_kw = width * 2,
                     guidance_scale_kw = guidance_scale,
                     num_inference_steps_kw = num_inference_steps,
                     generator_kw = resolve_seed E seed randomize_seed\<rparr>, s1)))"

text \<open>Lines 87 to 93: crop the right half and save it.\<close>

definition postprocess :: "image \<Rightarrow> string \<Rightarrow> world \<Rightarrow> (error + image) \<times> world" where
  "postprocess im output_dir s =
     (case im_size im of (w, h) \<Rightarrow>
        (let im' = crop im (w div 2, 0, w, h)
         in case makedirs output_dir s of
              Inl e \<Rightarrow> (Inl e, s)
            | Inr s1 \<Rightarrow>
                (case listdir output_dir s1 of
                   Inl e \<Rightarrow> (Inl e, s1)
                 | Inr names \<Rightarrow>
                     (let index = length names
                      in case save im' output_dir (''result_'' @ str_nat index @ ''.png'') s1 of
                           Inl e \<Rightarrow> (Inl e, s1)
                         | Inr s2 \<Rightarrow> (Inr im', s2)))))"

text \<open>The whole function.  It returns the cropped image and the seed that was used, or the
  exception that ended it, and the world as it left it.\<close>

definition infer ::
  "('p, 'g) ext \<Rightarrow> image option \<Rightarrow> string \<Rightarrow> int \<Rightarrow> bool \<Rightarrow> int \<Rightarrow> int \<Rightarrow> 'g \<Rightarrow> int \<Rightarrow>
   string \<Rightarrow> string \<Rightarrow> string \<Rightarrow> bool \<Rightarrow> world \<Rightarrow> (error + image \<times> int) \<times> world" where
  "infer E edit_images prompt seed randomize_seed width height guidance_scale
     num_inference_steps output_dir flux_path lora_path enable_offload s =
     (case load_pipe E flux_path lora_path enable_offload of
        Inl e \<Rightarrow> (Inl e, s)
      | Inr pipe \<Rightarrow>
          (case prepare E edit_images prompt seed randomize_seed width height guidance_scale
                  num_inference_steps s of
             (Inl e, s1) \<Rightarrow> (Inl e, s1)
           | (Inr req, s1) \<Rightarrow>
               (case call E pipe req of
                  Inl e \<Rightarrow> (Inl e, s1)
                | Inr images \<Rightarrow>
                    (case images of
                       [] \<Rightarrow> (Inl IndexError, s1)
                     | im # _ \<Rightarrow>
                         (case postprocess im output_dir s1 of
                            (Inl e, s2) \<Rightarrow> (Inl e, s2)
                          | (Inr im', s2) \<Rightarrow> (Inr (im', generator_kw req), s2))))))"


section \<open>A stub pipeline and a scenario\<close>

text \<open>
  A deterministic stand-in for the collaborators: the pipeline answers with one image of a
  fixed colour and of exactly the requested size, resampling takes the nearest pixel, and
  the random source returns its upper bound.  The scenario is the one of the specification:
  a source image of 1024 by 768, the prompt ``make it night'', seed 42, an empty file system.
\<close>

definition solid :: "nat \<times> nat \<Rightarrow> pixel \<Rightarrow> image" where
  "solid sz c = \<lparr>im_size = sz, im_mode = ''RGB'', getpixel = (\<lambda>x y. c)\<rparr>"

definition gradient :: "nat \<times> nat \<Rightarrow> image" where
  "gradient sz =
     \<lparr>im_size = sz, im_mode = ''RGB'', getpixel = (\<lambda>x y. [of_nat x, of_nat y, 0])\<rparr>"

definition stub_ext :: "(unit, int) ext" where
  "stub_ext =
     \<lparr>from_pretrained = (\<lambda>path. Inr ()),
      load_lora_weights = (\<lambda>pipe path. Inr pipe),
      enable_model_cpu_offload = (\<lambda>pipe. Inr pipe),
      to_cuda = (\<lambda>pipe. Inr pipe),
      call = (\<lambda>pipe req. Inr [solid (width_kw req, height_kw req) [9, 9, 9]]),
      resample = (\<lambda>im sz x y.
        getpixel im (x * fst (im_size im) div fst sz) (y * snd (im_size im) div snd sz)),
      to_rgb = (\<lambda>im x y. take 3 (getpixel im x y @ [0, 0, 0])),
      randint = (\<lambda>lo hi. hi)\<rparr>"

definition world0 :: world where
  "world0 = \<lparr>fs = Map.empty, stdout = []\<rparr>"

section \<open>Evaluation\<close>

lemmas float_eval =
  fround_def binexp_def scaled_def rne_def bitlen.simps Let_def py_int_def mul_int_float_def
  fmul_def float_of_int_def truediv_def

lemmas pil_eval =
  resize_def convert_RGB_def new_RGB_def paste_def crop_def zeros_def set_columns_from_def
  fromarray_def solid_def gradient_def

lemma new_height_scenario: "new_height (1024, 768) = Inr 384"
  by (simp add: new_height_def float_eval)

lemma normalize_scenario:
  "normalize_image stub_ext (Some (gradient (1024, 768))) world0 =
     (Inr ((gradient (1024, 768))
             \<lparr>im_size := (512, 384),
              getpixel := resample stub_ext (gradient (1024, 768)) (512, 384)\<rparr>),
      print (warning_resizing 512 384) (print warning_width world0))"
  by (simp add: normalize_image_def new_height_scenario resize_def convert_RGB_def gradient_def)

lemma prepare_scenario_ok:
  "\<exists>req. prepare stub_ext (Some (gradient (1024, 768))) p seed r w h g n world0 =
     (Inr req, print (warning_resizing 512 384) (print warning_width world0))"
  unfolding prepare_def normalize_scenario
  by (simp add: compose_def float_eval resize_def gradient_def)

section \<open>The instruction\<close>

text \<open>
  C4.  The instruction is the fixed diptych sentence followed by the prompt, unchanged, for
  every prompt and for the empty one; it is what the pipeline receives as its prompt.
\<close>

theorem instruction_template:
  "instruction p =
     ''A diptych with two side-by-side images of the same scene. On the right, the scene is exactly the same as on the left but '' @ p
   \<and> instruction [] =
     ''A diptych with two side-by-side images of the same scene. On the right, the scene is exactly the same as on the left but ''
   \<and> (prepare E edit_images p seed randomize_seed width height guidance_scale num_inference_steps s
         = (Inr req, s1) \<longrightarrow> prompt_kw req = instruction p)"
  by (auto simp: instruction_def prepare_def split: prod.splits sum.splits)

theorem instruction_template_witness:
  "\<not> isl (fst (prepare stub_ext (Some (gradient (1024, 768))) ''make it night'' 42 False 1024 1024
            50 28 world0))
   \<and> prompt_kw (projr (fst (prepare stub_ext (Some (gradient (1024, 768))) ''make it night'' 42
            False 1024 1024 50 28 world0))) =
     ''A diptych with two side-by-side images of the same scene. On the right, the scene is exactly the same as on the left but make it night''"
proof -
  obtain req where eq:
    "prepare stub_ext (Some (gradient (1024, 768))) ''make it night'' 42 False 1024 1024 50 28
       world0 = (Inr req, print (warning_resizing 512 384) (print warning_width world0))"
    using prepare_scenario_ok by blast
  from instruction_template [of "''make it night''" stub_ext "Some (gradient (1024, 768))" 42
      False 1024 1024 50 28 world0 req] eq
  have "prompt_kw req = instruction ''make it night''" by simp
  with eq show ?thesis by (simp add: instruction_def)
qed

end
